theory Spec2Isabelle
  imports Main
begin

section \<open>Task dashboard backend: data model\<close>

text \<open>
  The backend is an Express application over two document collections (users and tasks).
  Strings are lists of 8-bit code units. A document identifier is the hexadecimal text of
  the store's ObjectId. Time is the clock reading in milliseconds, passed in where a
  handler reads it.
\<close>

subsection \<open>Documents and tokens\<close>

record task =
  task_id :: string
  title :: string
  description :: "string option"
  status :: string
  user :: string
  createdAt :: nat
  updatedAt :: nat

text \<open>
  A signed token is symbolic: the payload of the source's \<open>DecodedToken\<close> interface
  together with the key it was signed under. Text on the wire is a sequence of ordinary
  characters and tokens, a token standing for its base64url text (which holds no space
  and which the program reads only through the token library).
\<close>

record DecodedToken =
  tok_id :: string
  tok_iat :: nat
  tok_exp :: nat

datatype jwt = Jwt DecodedToken string

datatype wire = Ch char | Blob jwt

subsection \<open>Response envelope (utils/response.util.ts)\<close>

datatype payload =
    TaskData task
  | TaskList "task list"
  | NullData
  | AuthData string string string "wire list"
  | ProfileData string string string

record response =
  statusCode :: nat
  success :: bool
  data :: "payload option"
  message :: string
  errors :: "string list option"

definition sendSuccess :: "nat \<Rightarrow> payload \<Rightarrow> string \<Rightarrow> response" where
  "sendSuccess code d msg =
     \<lparr>statusCode = code, success = True, data = Some d, message = msg, errors = None\<rparr>"

definition sendError :: "nat \<Rightarrow> string \<Rightarrow> string list option \<Rightarrow> response" where
  "sendError code msg errs =
     \<lparr>statusCode = code, success = False, data = None, message = msg, errors = errs\<rparr>"

subsection \<open>Errors thrown by the libraries\<close>

text \<open>
  Every handler wraps its body in \<open>try\<close>/\<open>catch\<close>; what the persistence layer and the
  token library throw is a value of \<open>thrown\<close>. The store is taken to be reachable: the
  errors modelled are the ones it raises as a function of its input (an identifier that
  is not an ObjectId, a unique index, a schema validator, a pattern that does not
  compile). \<open>error_message\<close> abbreviates the library's text of \<open>error.message\<close>.
\<close>

datatype thrown =
    CastError string
  | DuplicateKey string string
  | ValidationError string
  | RegexError string
  | JsonWebTokenError string
  | TokenExpiredError
  | IllegalArguments string

fun error_message :: "thrown \<Rightarrow> string" where
  "error_message (CastError v) = ''Cast to ObjectId failed for value '' @ v"
| "error_message (DuplicateKey k v) = ''E11000 duplicate key error, dup key: '' @ k @ '' '' @ v"
| "error_message (ValidationError p) = ''Validation failed: path '' @ p"
| "error_message (RegexError m) = m"
| "error_message (JsonWebTokenError m) = m"
| "error_message TokenExpiredError = ''jwt expired''"
| "error_message (IllegalArguments a) = ''Illegal arguments: '' @ a"

definition serverError :: "thrown \<Rightarrow> response" where
  "serverError e = sendError 500 ''Server error'' (Some [error_message e])"

subsection \<open>JavaScript strings\<close>

definition truthy :: "string \<Rightarrow> bool" where
  "truthy s = (s \<noteq> [])"

text \<open>
  A field of a request body or query is absent (undefined) or a string. \<open>supplied x\<close> is
  the truth value of \<open>x\<close> in a condition, \<open>text_of x\<close> the string once it is known to be
  there, \<open>present x\<close> is \<open>x ? x : undefined\<close>, \<open>or_else x y\<close> is \<open>x || y\<close>.
\<close>

definition supplied :: "string option \<Rightarrow> bool" where
  "supplied x = (case x of None \<Rightarrow> False | Some s \<Rightarrow> truthy s)"

definition text_of :: "string option \<Rightarrow> string" where
  "text_of x = (case x of None \<Rightarrow> [] | Some s \<Rightarrow> s)"

definition present :: "string option \<Rightarrow> string option" where
  "present x = (if supplied x then x else None)"

definition or_else :: "string option \<Rightarrow> string \<Rightarrow> string" where
  "or_else x y = (if supplied x then text_of x else y)"


definition is_space :: "char \<Rightarrow> bool" where
  "is_space c = ((of_char c :: nat) \<in> {9, 10, 11, 12, 13, 32, 160})"

definition trim :: "string \<Rightarrow> string" where
  "trim s = rev (dropWhile is_space (rev (dropWhile is_space s)))"

definition is_hex :: "char \<Rightarrow> bool" where
  "is_hex c = (let n = (of_char c :: nat) in
     (48 \<le> n \<and> n \<le> 57) \<or> (65 \<le> n \<and> n \<le> 70) \<or> (97 \<le> n \<and> n \<le> 102))"

text \<open>
  Lower case of a letter: a code from 65 to 90 has its bit of value 32 clear, and
  setting it adds 32.
\<close>

definition lower :: "char \<Rightarrow> char" where
  "lower c =
     (let n = (of_char c :: nat)
      in if 65 \<le> n \<and> n \<le> 90
         then (case c of Char b0 b1 b2 b3 b4 b5 b6 b7 \<Rightarrow> Char b0 b1 b2 b3 b4 True b6 b7)
         else c)"

text \<open>
  The store casts an identifier given as text to an ObjectId: the text must be 24
  hexadecimal digits, in either case. \<open>toHexString\<close> is the text of the ObjectId cast
  from it, in lower case; it is what \<open>_id.toString()\<close> gives and what the stored
  documents carry as their identifier.
\<close>

definition isObjectIdString :: "string \<Rightarrow> bool" where
  "isObjectIdString s = (length s = 24 \<and> list_all is_hex s)"

definition toHexString :: "string \<Rightarrow> string" where
  "toHexString s = map lower s"

subsection \<open>Password text and the hashing library\<close>

text \<open>
  Password text is symbolic. A text is either ordinary text (\<open>Plain\<close>) or the
  60-character text of a bcrypt hash (\<open>Bcrypt salt key\<close>); both are strings in the
  source, so the password field of a request body and the stored password field have
  the same type, and a caller may type the text of a hash. The hash function reads its
  input as a key: the UTF-8 bytes of the text followed by a zero byte, repeated
  cyclically, of which the first 72 bytes count. Two texts with the same key have the
  same hash under a salt.
\<close>

datatype pwtext = Plain string | Bcrypt string pwtext

definition utf8 :: "string \<Rightarrow> string" where
  "utf8 s = concat (map (\<lambda>c. let n = (of_char c :: nat) in
                if n < 128 then [c] else [char_of (192 + n div 64), char_of (128 + n mod 64)]) s)"

definition key72 :: "string \<Rightarrow> string" where
  "key72 s = take 72 (concat (replicate 72 (utf8 s @ [CHR 0x00])))"

fun key_of :: "pwtext \<Rightarrow> pwtext" where
  "key_of (Plain s) = Plain (key72 s)"
| "key_of (Bcrypt salt k) = Bcrypt salt k"

text \<open>\<open>bcrypt.hash(text, salt)\<close> and \<open>bcrypt.compare(entered, stored)\<close>.\<close>

definition bcrypt_hash :: "string \<Rightarrow> pwtext \<Rightarrow> pwtext" where
  "bcrypt_hash salt x = Bcrypt salt (key_of x)"

definition bcrypt_compare :: "pwtext \<Rightarrow> pwtext \<Rightarrow> bool" where
  "bcrypt_compare entered stored =
     (case stored of Plain s \<Rightarrow> False | Bcrypt salt k \<Rightarrow> k = key_of entered)"

text \<open>The \<open>length\<close> of a password text, and its truth value, absent or present.\<close>

fun pw_length :: "pwtext \<Rightarrow> nat" where
  "pw_length (Plain s) = length s"
| "pw_length (Bcrypt salt k) = 60"

definition supplied_pw :: "pwtext option \<Rightarrow> bool" where
  "supplied_pw x = (case x of None \<Rightarrow> False | Some p \<Rightarrow> pw_length p \<noteq> 0)"

definition pw_of :: "pwtext option \<Rightarrow> pwtext" where
  "pw_of x = (case x of None \<Rightarrow> Plain [] | Some p \<Rightarrow> p)"


subsection \<open>Validation helpers (utils/validation.util.ts)\<close>

definition validateTaskTitle :: "string \<Rightarrow> bool" where
  "validateTaskTitle t = (truthy t \<and> length (trim t) > 0)"

definition status_values :: "string list" where
  "status_values = [''pending'', ''in_progress'', ''completed'']"

text \<open>
  The email pattern \<open>/^[^\s@]+@[^\s@]+\.[^\s@]+$/\<close> is a sequence of literal characters
  and one-or-more repetitions of a character class, matched against the whole string.
\<close>

datatype rx_item = Lit char | Plus "char \<Rightarrow> bool"

fun rx_match :: "rx_item list \<Rightarrow> string \<Rightarrow> bool" where
  "rx_match [] s = (s = [])"
| "rx_match (Lit c # r) [] = False"
| "rx_match (Lit c # r) (x # xs) = (x = c \<and> rx_match r xs)"
| "rx_match (Plus P # r) [] = False"
| "rx_match (Plus P # r) (x # xs) = (P x \<and> (rx_match r xs \<or> rx_match (Plus P # r) xs))"

definition not_space_or_at :: "char \<Rightarrow> bool" where
  "not_space_or_at c = (\<not> is_space c \<and> c \<noteq> CHR ''@'')"

definition validateEmail :: "string \<Rightarrow> bool" where
  "validateEmail e =
     rx_match [Plus not_space_or_at, Lit (CHR ''@''), Plus not_space_or_at, Lit (CHR ''.''),
               Plus not_space_or_at] e"

definition validatePassword :: "pwtext \<Rightarrow> string list" where
  "validatePassword p =
     (if pw_length p < 6 then [''Password must be at least 6 characters long''] else [])"

definition validateName :: "string \<Rightarrow> bool" where
  "validateName n = (truthy n \<and> length (trim n) \<ge> 2)"

subsection \<open>Models (models/task.model.ts, models/user.model.ts) and their store\<close>

record user =
  user_id :: string
  name :: string
  email :: string
  password :: "pwtext option"
  user_createdAt :: nat
  user_updatedAt :: nat

record db =
  users :: "user list"
  tasks :: "task list"

text \<open>
  \<open>Task.findById(id)\<close>: the identifier is cast first (a \<open>CastError\<close> when it is not an
  ObjectId), then the document whose \<open>_id\<close> is that ObjectId is returned, or null.
\<close>

definition Task_findById :: "task list \<Rightarrow> string \<Rightarrow> thrown + task option" where
  "Task_findById ts i =
     (if isObjectIdString i then Inr (find (\<lambda>t. task_id t = toHexString i) ts)
      else Inl (CastError i))"

text \<open>
  \<open>task.user.toString() === req.user?._id.toString()\<close>: with no user attached the right
  side is undefined and the comparison is false.
\<close>

definition owns :: "user option \<Rightarrow> task \<Rightarrow> bool" where
  "owns acting t = (case acting of None \<Rightarrow> False | Some u \<Rightarrow> user t = user_id u)"

definition notFound :: response where
  "notFound = sendError 404 ''Task not found or not authorized'' None"

text \<open>
  The schema's validators: a title is required, the status is one of the three values,
  the owner is required.
\<close>

definition Task_validate :: "string \<Rightarrow> string \<Rightarrow> thrown option" where
  "Task_validate ti st =
     (if ti = [] then Some (ValidationError ''title'')
      else if st \<notin> set status_values then Some (ValidationError ''status'')
      else None)"

text \<open>
  \<open>new Task({user, title, description, status}).save()\<close>: the store has generated the
  identifier \<open>new_id\<close>; both timestamps are set to the time of the insert.
\<close>

definition Task_create ::
  "task list \<Rightarrow> string \<Rightarrow> nat \<Rightarrow> string option \<Rightarrow> string \<Rightarrow> string option \<Rightarrow> string
     \<Rightarrow> thrown + task \<times> task list" where
  "Task_create ts new_id now owner ti de st =
     (case owner of
        None \<Rightarrow> Inl (ValidationError ''user'')
      | Some ow \<Rightarrow>
          (case Task_validate ti st of
             Some e \<Rightarrow> Inl e
           | None \<Rightarrow>
               if list_ex (\<lambda>x. task_id x = new_id) ts then Inl (DuplicateKey ''_id'' new_id)
               else
                 (let t = \<lparr>task_id = new_id, title = ti, description = de, status = st,
                            user = ow, createdAt = now, updatedAt = now\<rparr>
                  in Inr (t, ts @ [t]))))"



text \<open>
  The store's regular-expression operator with option \<open>i\<close> is a parameter of the model:
  given the pattern it either fails to compile it or yields the predicate "the pattern
  matches somewhere in this string, ignoring case".
\<close>

type_synonym regex_engine = "string \<Rightarrow> thrown + (string \<Rightarrow> bool)"

text \<open>
  \<open>Task.find({user, $or: [{title: {$regex}}, {description: {$regex}}], status})\<close>, the
  \<open>$or\<close> and \<open>status\<close> keys being there only when the handler spread them in. An owner
  that is undefined matches no stored task, every task having one.
\<close>

definition Task_find ::
  "regex_engine \<Rightarrow> task list \<Rightarrow> string option \<Rightarrow> string option \<Rightarrow> string option
     \<Rightarrow> thrown + task list" where
  "Task_find rx ts owner search st =
     (let by_owner = (\<lambda>t. case owner of None \<Rightarrow> False | Some ow \<Rightarrow> user t = ow);
          by_status = (\<lambda>t. case st of None \<Rightarrow> True | Some v \<Rightarrow> status t = v)
      in case search of
           None \<Rightarrow> Inr (filter (\<lambda>t. by_owner t \<and> by_status t) ts)
         | Some s \<Rightarrow>
             (case rx s of
                Inl e \<Rightarrow> Inl e
              | Inr m \<Rightarrow>
                  Inr (filter (\<lambda>t. by_owner t
                         \<and> (m (title t) \<or> (case description t of None \<Rightarrow> False | Some x \<Rightarrow> m x))
                         \<and> by_status t) ts)))"

text \<open>\<open>.sort({createdAt: -1})\<close>: newest first.\<close>

definition sort_newest :: "task list \<Rightarrow> task list" where
  "sort_newest ts = rev (sort_key createdAt ts)"

subsection \<open>Task controller (controllers/task.controller.ts)\<close>

record task_query =
  query_search :: "string option"
  query_status :: "string option"

text \<open>
  The request body of the task routes. The handlers destructure \<open>title\<close>, \<open>description\<close>
  and \<open>status\<close>; \<open>body_user\<close> is an owner field a caller may send, which no handler reads.
\<close>

record task_body =
  body_title :: "string option"
  body_description :: "string option"
  body_status :: "string option"
  body_user :: "string option"

definition status_errors :: "string option \<Rightarrow> string list" where
  "status_errors st =
     (if supplied st \<and> text_of st \<notin> set status_values
      then [''Status must be one of: pending, in_progress, completed''] else [])"

definition getTasks :: "regex_engine \<Rightarrow> db \<Rightarrow> user option \<Rightarrow> task_query \<Rightarrow> response" where
  "getTasks rx d acting q =
     (let search = present (query_search q);
          st = present (query_status q)
      in case Task_find rx (tasks d) (map_option user_id acting) search st of
           Inl e \<Rightarrow> serverError e
         | Inr ts \<Rightarrow> sendSuccess 200 (TaskList (sort_newest ts)) ''Tasks retrieved successfully'')"

definition getTaskById :: "db \<Rightarrow> user option \<Rightarrow> string \<Rightarrow> response" where
  "getTaskById d acting i =
     (case Task_findById (tasks d) i of
        Inl e \<Rightarrow> serverError e
      | Inr found \<Rightarrow>
          (case found of
             None \<Rightarrow> notFound
           | Some t \<Rightarrow>
               if owns acting t then sendSuccess 200 (TaskData t) ''Task retrieved successfully''
               else notFound))"


text \<open>The \<open>errors\<close> array each handler fills before it touches the store.\<close>

definition createTask_errors :: "task_body \<Rightarrow> string list" where
  "createTask_errors b =
     (if \<not> supplied (body_title b) \<or> \<not> validateTaskTitle (text_of (body_title b))
      then [''Title is required and must not be empty''] else [])
     @ status_errors (body_status b)"


definition createTask ::
  "db \<Rightarrow> nat \<Rightarrow> string \<Rightarrow> user option \<Rightarrow> task_body \<Rightarrow> response \<times> db" where
  "createTask d now new_id acting b =
     (let errs = createTask_errors b
      in if errs \<noteq> [] then (sendError 400 ''Validation failed'' (Some errs), d)
         else
           (case Task_create (tasks d) new_id now (map_option user_id acting)
                   (text_of (body_title b)) (body_description b)
                   (or_else (body_status b) ''pending'') of
              Inl e \<Rightarrow> (serverError e, d)
            | Inr (t, ts') \<Rightarrow>
                (sendSuccess 201 (TaskData t) ''Task created successfully'', d\<lparr>tasks := ts'\<rparr>)))"




subsection \<open>Token issuer (utils/authToken.util.ts) and the token library\<close>

record environment =
  JWT_SECRET :: "string option"

definition thirty_days :: nat where
  "thirty_days = 30 * 24 * 60 * 60"

text \<open>
  \<open>jwt.sign({id}, secret, {expiresIn: "30d"})\<close> at clock reading \<open>now\<close> (milliseconds;
  the library counts seconds).
\<close>

definition jwt_sign :: "string \<Rightarrow> string \<Rightarrow> nat \<Rightarrow> wire list" where
  "jwt_sign i secret now =
     [Blob (Jwt \<lparr>tok_id = i, tok_iat = now div 1000, tok_exp = now div 1000 + thirty_days\<rparr>
              secret)]"

text \<open>
  \<open>jwt.verify(token, secret)\<close>: throws unless the text is one token, signed under the
  given secret, and not expired; a missing or empty secret is refused.
\<close>

definition jwt_verify :: "wire list option \<Rightarrow> string option \<Rightarrow> nat \<Rightarrow> thrown + DecodedToken" where
  "jwt_verify token secret now =
     (case token of
        None \<Rightarrow> Inl (JsonWebTokenError ''jwt must be provided'')
      | Some [] \<Rightarrow> Inl (JsonWebTokenError ''jwt must be provided'')
      | Some [Blob (Jwt pl k)] \<Rightarrow>
          if \<not> supplied secret then Inl (JsonWebTokenError ''secret or public key must be provided'')
          else if k \<noteq> text_of secret then Inl (JsonWebTokenError ''invalid signature'')
          else if now div 1000 \<ge> tok_exp pl then Inl TokenExpiredError
          else Inr pl
      | Some _ \<Rightarrow> Inl (JsonWebTokenError ''jwt malformed''))"

definition generateToken :: "environment \<Rightarrow> nat \<Rightarrow> string \<Rightarrow> wire list" where
  "generateToken env now i = jwt_sign i (or_else (JWT_SECRET env) ''default_secret'') now"

subsection \<open>User model (models/user.model.ts)\<close>

text \<open>
  \<open>User.findById(id)\<close>. An undefined identifier is looked up as null and finds nothing.
\<close>

definition User_findById :: "user list \<Rightarrow> string option \<Rightarrow> thrown + user option" where
  "User_findById us i =
     (case i of
        None \<Rightarrow> Inr None
      | Some s \<Rightarrow>
          if isObjectIdString s then Inr (find (\<lambda>u. user_id u = toHexString s) us)
          else Inl (CastError s))"

definition User_findOne :: "user list \<Rightarrow> string \<Rightarrow> user option" where
  "User_findOne us e = find (\<lambda>u. email u = e) us"

definition select_minus_password :: "user \<Rightarrow> user" where
  "select_minus_password u = u\<lparr>password := None\<rparr>"

text \<open>
  The \<open>pre("save")\<close> hook: nothing happens unless the password path is modified; then
  the password is replaced by its hash under a fresh salt.
\<close>

definition pre_save :: "bool \<Rightarrow> string \<Rightarrow> user \<Rightarrow> user" where
  "pre_save password_modified salt u =
     (if \<not> password_modified then u
      else u\<lparr>password := map_option (bcrypt_hash salt) (password u)\<rparr>)"


definition User_validate :: "user \<Rightarrow> thrown option" where
  "User_validate u =
     (if name u = [] then Some (ValidationError ''name'')
      else if email u = [] then Some (ValidationError ''email'')
      else if password u = None \<or> password u = Some (Plain []) then Some (ValidationError ''password'')
      else None)"

text \<open>
  \<open>User.create({name, email, password})\<close>: a new document, every path of which counts as
  modified; validation, the hook, then the insert under the unique indexes on \<open>_id\<close>
  and \<open>email\<close>.
\<close>

definition User_create ::
  "user list \<Rightarrow> string \<Rightarrow> string \<Rightarrow> nat \<Rightarrow> string \<Rightarrow> string \<Rightarrow> pwtext \<Rightarrow> thrown + user \<times> user list" where
  "User_create us salt new_id now n e p =
     (let u = \<lparr>user_id = new_id, name = n, email = e, password = Some p,
                user_createdAt = now, user_updatedAt = now\<rparr>
      in case User_validate u of
           Some err \<Rightarrow> Inl err
         | None \<Rightarrow>
             (let hashed = pre_save True salt u
              in if list_ex (\<lambda>v. user_id v = new_id) us then Inl (DuplicateKey ''_id'' new_id)
                 else if list_ex (\<lambda>v. email v = e) us then Inl (DuplicateKey ''email'' e)
                 else Inr (hashed, us @ [hashed])))"


subsection \<open>Auth middleware (middleware/auth.middleware.ts)\<close>

definition startsWith :: "'a list \<Rightarrow> 'a list \<Rightarrow> bool" where
  "startsWith s p = (take (length p) s = p)"

text \<open>\<open>s.split(sep)\<close> for a separator of one character.\<close>

fun split :: "'a \<Rightarrow> 'a list \<Rightarrow> 'a list list" where
  "split sep [] = [[]]"
| "split sep (c # cs) =
     (if c = sep then [] # split sep cs
      else (case split sep cs of [] \<Rightarrow> [[c]] | w # ws \<Rightarrow> (c # w) # ws))"

text \<open>\<open>xs[i]\<close>: undefined past the end.\<close>

definition index :: "'a list \<Rightarrow> nat \<Rightarrow> 'a option" where
  "index xs i = (if i < length xs then Some (xs ! i) else None)"

datatype protect_outcome = Rejected response | Next "user option"

text \<open>
  The condition of the middleware's \<open>if\<close>:
  \<open>req.headers.authorization && req.headers.authorization.startsWith("Bearer")\<close>, and the
  token it reads in the \<open>try\<close> block: \<open>req.headers.authorization.split(" ")[1]\<close>.
\<close>

definition has_bearer :: "wire list option \<Rightarrow> bool" where
  "has_bearer authorization =
     (case authorization of None \<Rightarrow> False | Some h \<Rightarrow> h \<noteq> [] \<and> startsWith h (map Ch ''Bearer''))"

definition header_token :: "wire list option \<Rightarrow> wire list option" where
  "header_token authorization =
     (case authorization of None \<Rightarrow> None | Some h \<Rightarrow> index (split (Ch (CHR '' '')) h) 1)"

definition no_token :: response where
  "no_token = sendError 401 ''Not authorized, no token'' None"

definition token_failed :: response where
  "token_failed = sendError 401 ''Not authorized, token failed'' None"

definition protect ::
  "environment \<Rightarrow> db \<Rightarrow> nat \<Rightarrow> wire list option \<Rightarrow> protect_outcome" where
  "protect env d now authorization =
     (if has_bearer authorization then
        (case jwt_verify (header_token authorization) (JWT_SECRET env) now of
           Inl e \<Rightarrow> Rejected token_failed
         | Inr decoded \<Rightarrow>
             (case User_findById (users d) (Some (tok_id decoded)) of
                Inl e \<Rightarrow> Rejected token_failed
              | Inr found \<Rightarrow> Next (map_option select_minus_password found)))
      else Rejected no_token)"

subsection \<open>Auth controller (controllers/auth.controller.ts)\<close>

record user_body =
  body_name :: "string option"
  body_email :: "string option"
  body_password :: "pwtext option"

definition authData :: "environment \<Rightarrow> nat \<Rightarrow> user \<Rightarrow> payload" where
  "authData env now u = AuthData (user_id u) (name u) (email u) (generateToken env now (user_id u))"

definition registerUser_errors :: "user_body \<Rightarrow> string list" where
  "registerUser_errors b =
     (if \<not> supplied (body_name b) \<or> \<not> validateName (text_of (body_name b))
      then [''Name must be at least 2 characters long''] else [])
     @ (if \<not> supplied (body_email b) \<or> \<not> validateEmail (text_of (body_email b))
        then [''Please provide a valid email address''] else [])
     @ (if \<not> supplied_pw (body_password b) then [''Password is required'']
        else validatePassword (pw_of (body_password b)))"


definition registerUser ::
  "environment \<Rightarrow> db \<Rightarrow> nat \<Rightarrow> string \<Rightarrow> string \<Rightarrow> user_body \<Rightarrow> response \<times> db" where
  "registerUser env d now salt new_id b =
     (let errs = registerUser_errors b
      in if errs \<noteq> [] then (sendError 400 ''Validation failed'' (Some errs), d)
         else
           (case User_findOne (users d) (text_of (body_email b)) of
              Some existing \<Rightarrow> (sendError 400 ''Email is already registered'' None, d)
            | None \<Rightarrow>
                (case User_create (users d) salt new_id now (text_of (body_name b))
                        (text_of (body_email b)) (pw_of (body_password b)) of
                   Inl e \<Rightarrow> (serverError e, d)
                 | Inr (u, us') \<Rightarrow>
                     (sendSuccess 201 (authData env now u) ''User registered successfully'',
                      d\<lparr>users := us'\<rparr>))))"


definition getUserProfile :: "db \<Rightarrow> user option \<Rightarrow> response" where
  "getUserProfile d acting =
     (case User_findById (users d) (map_option user_id acting) of
        Inl e \<Rightarrow> serverError e
      | Inr found \<Rightarrow>
          (case found of
             None \<Rightarrow> sendError 404 ''User not found'' None
           | Some u \<Rightarrow>
               sendSuccess 200 (ProfileData (user_id u) (name u) (email u))
                 ''Profile retrieved successfully''))"

text \<open>
  The assignments of the profile update: \<open>user.name = req.body.name || user.name\<close>, the
  same for the email, and the password only \<open>if (req.body.password)\<close>.
\<close>

definition assign_profile :: "user \<Rightarrow> user_body \<Rightarrow> user" where
  "assign_profile u b =
     (let u1 = u\<lparr>name := or_else (body_name b) (name u),
                  email := or_else (body_email b) (email u)\<rparr>
      in if supplied_pw (body_password b)
         then u1\<lparr>password := body_password b\<rparr>
         else u1)"


section \<open>Well-formed stores and worked data\<close>




text \<open>Two users and a store used to run the handlers on concrete requests.\<close>

definition alice_id :: string where
  "alice_id = ''64b000000000000000000a11''"

definition bob_id :: string where
  "bob_id = ''64b000000000000000000b0b''"

definition alice :: user where
  "alice = \<lparr>user_id = alice_id, name = ''Alice'', email = ''alice@x.com'',
            password = Some (bcrypt_hash ''s1'' (Plain ''secret1'')),
            user_createdAt = 1, user_updatedAt = 1\<rparr>"

definition bob :: user where
  "bob = \<lparr>user_id = bob_id, name = ''Bob'', email = ''bob@x.com'',
          password = Some (bcrypt_hash ''s2'' (Plain ''hunter22'')),
          user_createdAt = 2, user_updatedAt = 2\<rparr>"

definition task1_id :: string where
  "task1_id = ''64c000000000000000000001''"

definition task1_id_upper :: string where
  "task1_id_upper = ''64C000000000000000000001''"

definition task1 :: task where
  "task1 = \<lparr>task_id = task1_id, title = ''abc'', description = None, status = ''pending'',
            user = alice_id, createdAt = 10, updatedAt = 10\<rparr>"

definition db1 :: db where
  "db1 = \<lparr>users = [alice, bob], tasks = [task1]\<rparr>"

definition empty_body :: task_body where
  "empty_body = \<lparr>body_title = None, body_description = None, body_status = None,
                 body_user = None\<rparr>"



definition t1_body :: task_body where
  "t1_body = empty_body\<lparr>body_title := Some ''T1'', body_user := Some bob_id\<rparr>"

definition task2_id :: string where
  "task2_id = ''64c000000000000000000002''"



definition env1 :: environment where
  "env1 = \<lparr>JWT_SECRET = Some ''s3cret-key''\<rparr>"

definition env_unset :: environment where
  "env_unset = \<lparr>JWT_SECRET = None\<rparr>"

definition jo_id :: string where
  "jo_id = ''64b000000000000000000c07''"

definition jo_body :: user_body where
  "jo_body = \<lparr>body_name = Some ''Jo'', body_email = Some ''jo@x.com'',
               body_password = Some (Plain ''secret1'')\<rparr>"







definition jo :: user where
  "jo = \<lparr>user_id = jo_id, name = ''Jo'', email = ''jo@x.com'',
         password = Some (bcrypt_hash ''salt9'' (Plain ''secret1'')),
         user_createdAt = 40, user_updatedAt = 40\<rparr>"

definition ghost_id :: string where
  "ghost_id = ''64b0000000000000000000ff''"

text \<open>The header a client sends with a token: \<open>Authorization: Bearer <token>\<close>.\<close>

definition bearer_header :: "wire list \<Rightarrow> wire list option" where
  "bearer_header tok = Some (map Ch ''Bearer '' @ tok)"

subsection \<open>Search: substring containment and a fragment of the regular-expression operator\<close>

text \<open>
  "Contains \<open>s\<close> as a case-insensitive substring", as the specification words the
  search: \<open>s\<close> is a prefix, ignoring case, of some suffix of the text.
\<close>

fun prefix_i :: "string \<Rightarrow> string \<Rightarrow> bool" where
  "prefix_i [] cs = True"
| "prefix_i (p # ps) [] = False"
| "prefix_i (p # ps) (c # cs) = (lower p = lower c \<and> prefix_i ps cs)"

fun contains_i :: "string \<Rightarrow> string \<Rightarrow> bool" where
  "contains_i s [] = prefix_i s []"
| "contains_i s (c # cs) = (prefix_i s (c # cs) \<or> contains_i s cs)"

text \<open>
  The store's operator on the patterns made of ordinary characters and the wildcard
  \<open>.\<close> (any character but a newline), with option \<open>i\<close>: the pattern matches at some
  position of the text. Patterns that use another operator character are outside this
  fragment, which answers them with an error; the theorems about \<open>getTasks\<close> hold for
  every engine and use this one only to run a request.
\<close>

fun dot_here :: "string \<Rightarrow> string \<Rightarrow> bool" where
  "dot_here [] cs = True"
| "dot_here (p # ps) [] = False"
| "dot_here (p # ps) (c # cs) =
     ((if p = CHR ''.'' then c \<noteq> CHR 0x0A else lower p = lower c) \<and> dot_here ps cs)"

fun dot_search :: "string \<Rightarrow> string \<Rightarrow> bool" where
  "dot_search s [] = dot_here s []"
| "dot_search s (c # cs) = (dot_here s (c # cs) \<or> dot_search s cs)"

definition other_operators :: string where
  "other_operators = CHR 0x5C # ''^$|?*+()[]{}''"

definition wildcard_engine :: regex_engine where
  "wildcard_engine p =
     (if list_all (\<lambda>c. c \<notin> set other_operators) p then Inr (dot_search p)
      else Inl (RegexError ''pattern outside the modelled fragment''))"

definition search_a_dot_c :: task_query where
  "search_a_dot_c = \<lparr>query_search = Some ''a.c'', query_status = None\<rparr>"

section \<open>Properties of the task controller\<close>

subsection \<open>Lookups in a well-formed store\<close>

lemma oid_alice: "isObjectIdString alice_id"
  by (simp add: isObjectIdString_def alice_id_def is_hex_def)

lemma oid_bob: "isObjectIdString bob_id"
  by (simp add: isObjectIdString_def bob_id_def is_hex_def)

lemma oid_task1: "isObjectIdString task1_id"
  by (simp add: isObjectIdString_def task1_id_def is_hex_def)

lemma hex_task1: "toHexString task1_id = task1_id"
  by (simp add: toHexString_def task1_id_def lower_def)

lemma hex_alice: "toHexString alice_id = alice_id"
  by (simp add: toHexString_def alice_id_def lower_def)


lemma find_distinct:
  "distinct (map f xs) \<Longrightarrow> x \<in> set xs \<Longrightarrow> find (\<lambda>y. f y = f x) xs = Some x"
  by (induction xs) (auto simp: rev_image_eqI)

lemma find_some_in: "find P xs = Some x \<Longrightarrow> x \<in> set xs \<and> P x"
  by (induction xs) (auto split: if_splits)





subsection \<open>Another user's task\<close>




subsection \<open>Get by id\<close>

text \<open>
  Claim C2 as stated fails for an id string that is not an ObjectId: the lookup throws
  while casting it and the handler's catch-all answers 500 "Server error".
\<close>

theorem getTaskById_malformed_id_is_500:
  "getTaskById db1 (Some alice) ''abc'' = serverError (CastError ''abc'')
   \<and> statusCode (getTaskById db1 (Some alice) ''abc'') = 500
   \<and> getTaskById db1 (Some alice) ''abc'' \<noteq> notFound"
  by (simp add: getTaskById_def Task_findById_def isObjectIdString_def serverError_def
      sendError_def notFound_def)

text \<open>
  Claim C2, amended. For an authenticated get-by-id request whose id is a well-formed
  identifier (24 hexadecimal digits, in either case): the task is returned with 200
  when a task with that identifier is stored and its owner is the acting user, and in
  every other case (no such task, or another owner) the response is the one 404 "Task
  not found or not authorized" error. An id that is not a well-formed identifier is
  answered 500 "Server error".
\<close>

theorem getTaskById_outcomes:
  assumes "distinct (map task_id (tasks d))"
  shows "(isObjectIdString i \<longrightarrow>
            (\<forall>t \<in> set (tasks d). task_id t = toHexString i \<and> user t = user_id u \<longrightarrow>
               getTaskById d (Some u) i =
                 sendSuccess 200 (TaskData t) ''Task retrieved successfully'')
          \<and> ((\<forall>t \<in> set (tasks d). \<not> (task_id t = toHexString i \<and> user t = user_id u)) \<longrightarrow>
               getTaskById d (Some u) i = notFound))
       \<and> (\<not> isObjectIdString i \<longrightarrow> getTaskById d (Some u) i = serverError (CastError i))"
proof (intro conjI impI ballI)
  fix t assume v: "isObjectIdString i" and t: "t \<in> set (tasks d)"
    and ti: "task_id t = toHexString i \<and> user t = user_id u"
  from find_distinct[OF assms t] ti
  have "find (\<lambda>y. task_id y = toHexString i) (tasks d) = Some t"
    by auto
  with v ti show "getTaskById d (Some u) i =
      sendSuccess 200 (TaskData t) ''Task retrieved successfully''"
    by (simp add: getTaskById_def Task_findById_def owns_def)
next
  assume v: "isObjectIdString i"
    and no: "\<forall>t \<in> set (tasks d). \<not> (task_id t = toHexString i \<and> user t = user_id u)"
  show "getTaskById d (Some u) i = notFound"
  proof (cases "find (\<lambda>y. task_id y = toHexString i) (tasks d)")
    case None
    with v show ?thesis by (simp add: getTaskById_def Task_findById_def)
  next
    case (Some t)
    from find_some_in[OF Some] no have "user t \<noteq> user_id u" by auto
    with v Some show ?thesis by (simp add: getTaskById_def Task_findById_def owns_def)
  qed
next
  assume "\<not> isObjectIdString i"
  then show "getTaskById d (Some u) i = serverError (CastError i)"
    by (simp add: getTaskById_def Task_findById_def)
qed

theorem getTaskById_outcomes_witness:
  "distinct (map task_id (tasks db1)) \<and> isObjectIdString task1_id
   \<and> isObjectIdString task1_id_upper \<and> task1_id_upper \<noteq> task1_id
   \<and> getTaskById db1 (Some alice) task1_id =
       sendSuccess 200 (TaskData task1) ''Task retrieved successfully''
   \<and> getTaskById db1 (Some alice) task1_id_upper =
       sendSuccess 200 (TaskData task1) ''Task retrieved successfully''
   \<and> getTaskById db1 (Some bob) task1_id = notFound
   \<and> getTaskById db1 (Some bob) bob_id = notFound"
proof -
  have a: "distinct (map task_id (tasks db1))" by (simp add: db1_def)
  have up: "isObjectIdString task1_id_upper" "task1_id_upper \<noteq> task1_id"
      "toHexString task1_id_upper = task1_id"
    by (simp_all add: isObjectIdString_def task1_id_upper_def task1_id_def is_hex_def
        toHexString_def lower_def)
  have own: "task_id task1 = toHexString task1_id \<and> user task1 = user_id alice"
    by (simp add: task1_def alice_def hex_task1)
  have own_up: "task_id task1 = toHexString task1_id_upper \<and> user task1 = user_id alice"
    by (simp add: task1_def alice_def up)
  have other: "\<forall>t \<in> set (tasks db1).
      \<not> (task_id t = toHexString task1_id \<and> user t = user_id bob)"
    by (simp add: db1_def task1_def bob_def alice_id_def bob_id_def)
  have none: "\<forall>t \<in> set (tasks db1). \<not> (task_id t = toHexString bob_id \<and> user t = user_id bob)"
    by (simp add: db1_def task1_def bob_def alice_id_def bob_id_def)
  have mem: "task1 \<in> set (tasks db1)" by (simp add: db1_def)
  from getTaskById_outcomes[OF a, of task1_id alice] own mem oid_task1
  have 1: "getTaskById db1 (Some alice) task1_id =
       sendSuccess 200 (TaskData task1) ''Task retrieved successfully''" by blast
  from getTaskById_outcomes[OF a, of task1_id_upper alice] own_up mem up(1)
  have 4: "getTaskById db1 (Some alice) task1_id_upper =
       sendSuccess 200 (TaskData task1) ''Task retrieved successfully''" by blast
  from getTaskById_outcomes[OF a, of task1_id bob] other oid_task1
  have 2: "getTaskById db1 (Some bob) task1_id = notFound" by blast
  from getTaskById_outcomes[OF a, of bob_id bob] none oid_bob
  have 3: "getTaskById db1 (Some bob) bob_id = notFound" by blast
  from a oid_task1 up(1,2) 1 4 2 3 show ?thesis by simp
qed

subsection \<open>Update by the owner\<close>








subsection \<open>Create\<close>

lemma createTask_ignores_owner_field:
  "createTask d now new_id acting (b\<lparr>body_user := x\<rparr>) = createTask d now new_id acting b"
  by (simp add: createTask_def createTask_errors_def)

lemma Task_create_Inr:
  assumes "Task_create ts new_id now owner ti de st = Inr (t, ts')"
  shows "\<exists>ow. owner = Some ow \<and> ts' = ts @ [t] \<and>
           t = \<lparr>task_id = new_id, title = ti, description = de, status = st,
                 user = ow, createdAt = now, updatedAt = now\<rparr>"
proof (cases owner)
  case None
  with assms show ?thesis by (simp add: Task_create_def)
next
  case (Some ow)
  with assms show ?thesis
    by (cases "Task_validate ti st") (auto simp: Task_create_def Let_def split: if_splits)
qed

lemma createTask_201:
  assumes "createTask d now new_id acting b = (r, d')" and "statusCode r = 201"
  shows "\<exists>t. Task_create (tasks d) new_id now (map_option user_id acting) (text_of (body_title b))
                (body_description b) (or_else (body_status b) ''pending'') = Inr (t, tasks d @ [t])
            \<and> r = sendSuccess 201 (TaskData t) ''Task created successfully''
            \<and> d' = d\<lparr>tasks := tasks d @ [t]\<rparr>"
proof (cases "createTask_errors b = []")
  case False
  with assms show ?thesis by (auto simp: createTask_def Let_def sendError_def)
next
  case True
  show ?thesis
  proof (cases "Task_create (tasks d) new_id now (map_option user_id acting)
                  (text_of (body_title b)) (body_description b)
                  (or_else (body_status b) ''pending'')")
    case (Inl e)
    with True assms show ?thesis
      by (auto simp: createTask_def Let_def serverError_def sendError_def)
  next
    case (Inr p)
    obtain t ts' where p: "p = (t, ts')" by (cases p)
    from Task_create_Inr[OF Inr[unfolded p]] have "ts' = tasks d @ [t]" by blast
    with True Inr p assms(1) show ?thesis
      by (simp add: createTask_def Let_def)
  qed
qed

text \<open>
  Claim C6. A task creation answered 201 stored one new task whose owner is the acting
  user attached by the middleware; the response and the store are the same whatever
  owner field the body carries; and a body without a status gives the status "pending".
\<close>

theorem createTask_owner:
  assumes "createTask d now new_id acting b = (r, d')" and "statusCode r = 201"
  shows "\<exists>u t. acting = Some u \<and> data r = Some (TaskData t) \<and> tasks d' = tasks d @ [t]
           \<and> task_id t = new_id \<and> user t = user_id u
           \<and> (\<not> supplied (body_status b) \<longrightarrow> status t = ''pending'')
           \<and> (\<forall>x. createTask d now new_id acting (b\<lparr>body_user := x\<rparr>) = (r, d'))"
proof -
  from createTask_201[OF assms] obtain t where
    t: "Task_create (tasks d) new_id now (map_option user_id acting) (text_of (body_title b))
          (body_description b) (or_else (body_status b) ''pending'') = Inr (t, tasks d @ [t])"
      "r = sendSuccess 201 (TaskData t) ''Task created successfully''"
      "d' = d\<lparr>tasks := tasks d @ [t]\<rparr>"
    by blast
  from Task_create_Inr[OF t(1)] obtain ow where
    ow: "map_option user_id acting = Some ow"
      "t = \<lparr>task_id = new_id, title = text_of (body_title b), description = body_description b,
            status = or_else (body_status b) ''pending'', user = ow, createdAt = now,
            updatedAt = now\<rparr>"
    by blast
  from ow(1) obtain u where u: "acting = Some u" "ow = user_id u" by auto
  have ign: "\<forall>x. createTask d now new_id acting (b\<lparr>body_user := x\<rparr>) = (r, d')"
    using assms(1) by (simp add: createTask_ignores_owner_field)
  have "data r = Some (TaskData t)" using t(2) by (simp add: sendSuccess_def)
  moreover have "tasks d' = tasks d @ [t]" using t(3) by simp
  moreover have "task_id t = new_id" "user t = user_id u" using ow(2) u by simp_all
  moreover have "\<not> supplied (body_status b) \<longrightarrow> status t = ''pending''"
    using ow(2) by (simp add: or_else_def)
  ultimately show ?thesis using u ign by blast
qed

lemma create_eval:
  "createTask db1 30 task2_id (Some alice) t1_body =
     (sendSuccess 201 (TaskData \<lparr>task_id = task2_id, title = ''T1'', description = None,
         status = ''pending'', user = alice_id, createdAt = 30, updatedAt = 30\<rparr>)
         ''Task created successfully'',
      db1\<lparr>tasks := tasks db1 @ [\<lparr>task_id = task2_id, title = ''T1'', description = None,
         status = ''pending'', user = alice_id, createdAt = 30, updatedAt = 30\<rparr>]\<rparr>)"
  by (simp add: createTask_def createTask_errors_def status_errors_def supplied_def text_of_def
      truthy_def validateTaskTitle_def trim_def is_space_def t1_body_def empty_body_def
      Task_create_def Task_validate_def status_values_def or_else_def db1_def task1_def
      task1_id_def task2_id_def alice_def Let_def)



theorem createTask_owner_witness:
  "statusCode (fst (createTask db1 30 task2_id (Some alice) t1_body)) = 201
   \<and> body_user t1_body = Some bob_id \<and> \<not> supplied (body_status t1_body)
   \<and> (\<exists>t. data (fst (createTask db1 30 task2_id (Some alice) t1_body)) = Some (TaskData t)
          \<and> tasks (snd (createTask db1 30 task2_id (Some alice) t1_body)) = tasks db1 @ [t]
          \<and> user t = user_id alice \<and> status t = ''pending'')"
proof -
  have code: "statusCode (fst (createTask db1 30 task2_id (Some alice) t1_body)) = 201"
    by (simp add: create_eval sendSuccess_def)
  have b: "body_user t1_body = Some bob_id" "\<not> supplied (body_status t1_body)"
    by (simp_all add: t1_body_def empty_body_def supplied_def)
  from createTask_owner[OF prod.collapse[symmetric] code] b code show ?thesis by auto
qed

section \<open>Properties of the auth controller\<close>

subsection \<open>Keys of password texts\<close>


text \<open>Texts of 72 bytes or more that agree on their first 72 bytes have the same key.\<close>

lemma key72_long:
  assumes "72 \<le> length (utf8 s)"
  shows "key72 s = take 72 (utf8 s)"
proof -
  have "replicate 72 (utf8 s @ [CHR 0x00])
        = (utf8 s @ [CHR 0x00]) # replicate 71 (utf8 s @ [CHR 0x00])"
    by (simp add: numeral_eq_Suc)
  then have "key72 s = take 72 (utf8 s @ (CHR 0x00 # concat (replicate 71 (utf8 s @ [CHR 0x00]))))"
    by (simp add: key72_def)
  with assms show ?thesis by simp
qed

lemma long_passwords_match:
  assumes "72 \<le> length (utf8 a)" and "take 72 (utf8 a) = take 72 (utf8 b)"
  shows "bcrypt_compare (Plain b) (bcrypt_hash salt (Plain a))"
proof -
  from assms have "72 \<le> length (utf8 b)"
    by (metis length_take min.absorb2 min.cobounded1)
  with assms show ?thesis by (simp add: bcrypt_compare_def bcrypt_hash_def key72_long)
qed





subsection \<open>Login\<close>




subsection \<open>Stored passwords\<close>


lemma User_create_Inr:
  assumes "User_create us salt new_id now n e p = Inr (u, us')"
  shows "us' = us @ [u] \<and>
         u = \<lparr>user_id = new_id, name = n, email = e, password = Some (bcrypt_hash salt p),
               user_createdAt = now, user_updatedAt = now\<rparr>"
  using assms
  by (auto simp: User_create_def Let_def pre_save_def split: option.splits if_splits)

lemma registerUser_201:
  assumes "registerUser env d now salt new_id b = (r, d')" and "statusCode r = 201"
  shows "\<exists>u. User_create (users d) salt new_id now (text_of (body_name b))
                (text_of (body_email b)) (pw_of (body_password b)) = Inr (u, users d @ [u])
            \<and> registerUser_errors b = []
            \<and> User_findOne (users d) (text_of (body_email b)) = None
            \<and> r = sendSuccess 201 (authData env now u) ''User registered successfully''
            \<and> d' = d\<lparr>users := users d @ [u]\<rparr>"
proof (cases "registerUser_errors b = []")
  case False
  with assms show ?thesis by (auto simp: registerUser_def Let_def sendError_def)
next
  case True
  show ?thesis
  proof (cases "User_findOne (users d) (text_of (body_email b))")
    case (Some existing)
    with True assms show ?thesis by (auto simp: registerUser_def Let_def sendError_def)
  next
    case None
    show ?thesis
    proof (cases "User_create (users d) salt new_id now (text_of (body_name b))
                (text_of (body_email b)) (pw_of (body_password b))")
      case (Inl e)
      with True None assms show ?thesis
        by (auto simp: registerUser_def Let_def serverError_def sendError_def)
    next
      case (Inr p)
      obtain u us' where p: "p = (u, us')" by (cases p)
      from User_create_Inr[OF Inr[unfolded p]] have "us' = users d @ [u]" by blast
      with True None Inr p assms(1) show ?thesis by (simp add: registerUser_def Let_def)
    qed
  qed
qed



lemma user_id_assign_profile: "user_id (assign_profile u b) = user_id u"
  by (simp add: assign_profile_def Let_def)










lemma email_jo: "validateEmail ''jo@x.com''"
  by (simp add: validateEmail_def not_space_or_at_def is_space_def)


lemma jo_errors: "registerUser_errors jo_body = []"
  by (simp add: registerUser_errors_def jo_body_def supplied_def supplied_pw_def pw_of_def
      text_of_def truthy_def validateName_def trim_def is_space_def email_jo
      validatePassword_def)

lemma register_jo:
  "registerUser env db1 40 ''salt9'' jo_id jo_body =
     (sendSuccess 201 (authData env 40 jo) ''User registered successfully'',
      db1\<lparr>users := users db1 @ [jo]\<rparr>)"
proof -
  have f: "User_findOne (users db1) (text_of (body_email jo_body)) = None"
    by (simp add: User_findOne_def db1_def alice_def bob_def jo_body_def text_of_def)
  have c: "User_create (users db1) ''salt9'' jo_id 40 (text_of (body_name jo_body))
             (text_of (body_email jo_body)) (pw_of (body_password jo_body))
           = Inr (jo, users db1 @ [jo])"
    by (simp add: User_create_def User_validate_def pre_save_def Let_def db1_def alice_def
        bob_def jo_body_def text_of_def pw_of_def alice_id_def bob_id_def jo_id_def jo_def)
  show ?thesis by (simp add: registerUser_def jo_errors f c)
qed


lemma hex_bob: "toHexString bob_id = bob_id"
  by (simp add: toHexString_def bob_id_def lower_def)

lemma find_alice: "User_findById (users db1) (Some (user_id alice)) = Inr (Some alice)"
  by (simp add: User_findById_def db1_def oid_alice hex_alice alice_def)








subsection \<open>Profile update with a taken email\<close>





section \<open>Properties of the auth middleware and the token issuer\<close>

subsection \<open>Outcomes of the middleware\<close>

lemma responses_differ: "no_token \<noteq> token_failed"
  by (simp add: no_token_def token_failed_def sendError_def)

lemma header_token_bearer: "header_token (bearer_header [Blob j]) = Some [Blob j]"
  by (simp add: header_token_def bearer_header_def index_def)

lemma has_bearer_header: "has_bearer (bearer_header tok)"
  by (simp add: has_bearer_def bearer_header_def startsWith_def)

text \<open>
  Claim C3, amended. The middleware has three outcomes and no other. It fails with 401
  "Not authorized, no token" exactly when the request has no Authorization header that
  starts with "Bearer". It fails with 401 "Not authorized, token failed" exactly when
  such a header is there and either the token read from it does not verify (missing,
  malformed, signed under another secret, expired, or no secret configured) or the user
  lookup for the token's id throws. In every remaining case it invokes the downstream
  handler after attaching the result of looking up the token's id: the stored user
  record with that id, its password field removed, or null when no user has that id.
\<close>

theorem protect_outcomes:
  "(protect env d now a = Rejected no_token \<longleftrightarrow> \<not> has_bearer a)
   \<and> (protect env d now a = Rejected token_failed \<longleftrightarrow>
        has_bearer a
        \<and> ((\<exists>e. jwt_verify (header_token a) (JWT_SECRET env) now = Inl e)
            \<or> (\<exists>dec e. jwt_verify (header_token a) (JWT_SECRET env) now = Inr dec
                  \<and> User_findById (users d) (Some (tok_id dec)) = Inl e)))
   \<and> (\<forall>dec found. has_bearer a \<longrightarrow>
         jwt_verify (header_token a) (JWT_SECRET env) now = Inr dec \<longrightarrow>
         User_findById (users d) (Some (tok_id dec)) = Inr found \<longrightarrow>
         protect env d now a = Next (map_option select_minus_password found))
   \<and> (\<forall>u. protect env d now a = Next (Some u) \<longrightarrow>
         password u = None
         \<and> (\<exists>dec. jwt_verify (header_token a) (JWT_SECRET env) now = Inr dec
               \<and> user_id u = toHexString (tok_id dec))
         \<and> (\<exists>s \<in> set (users d). u = select_minus_password s))
   \<and> (protect env d now a = Rejected no_token \<or> protect env d now a = Rejected token_failed
        \<or> (\<exists>u. protect env d now a = Next u))"
proof (cases "has_bearer a")
  case False
  then show ?thesis by (simp add: protect_def responses_differ)
next
  case True
  show ?thesis
  proof (cases "jwt_verify (header_token a) (JWT_SECRET env) now")
    case (Inl e)
    with True show ?thesis by (simp add: protect_def responses_differ[symmetric])
  next
    case (Inr dec)
    show ?thesis
    proof (cases "User_findById (users d) (Some (tok_id dec))")
      case (Inl e)
      with True Inr show ?thesis by (simp add: protect_def responses_differ[symmetric])
    next
      case inr: (Inr found)
      have "found = Some s \<Longrightarrow> s \<in> set (users d) \<and> user_id s = toHexString (tok_id dec)" for s
        using inr by (auto simp: User_findById_def split: if_splits dest: find_some_in)
      with True Inr inr show ?thesis
        by (auto simp: protect_def select_minus_password_def)
    qed
  qed
qed

lemma oid_ghost: "isObjectIdString ghost_id"
  by (simp add: isObjectIdString_def ghost_id_def is_hex_def)

lemma oid_jo: "isObjectIdString jo_id"
  by (simp add: isObjectIdString_def jo_id_def is_hex_def)

lemma secret_env1: "JWT_SECRET env1 = Some ''s3cret-key''"
  by (simp add: env1_def)

text \<open>
  Claim C3 as stated fails in two ways. A token that verifies but whose id belongs to no
  stored user makes the middleware attach null and invoke the downstream handler: no
  user record is attached. A token that verifies but whose id is not an ObjectId makes
  the user lookup throw inside the same \<open>try\<close> block, and the request fails with
  "token failed" although the token verified.
\<close>

theorem protect_without_user_record:
  "jwt_verify (header_token (bearer_header (jwt_sign ghost_id ''s3cret-key'' 0)))
      (JWT_SECRET env1) 5000
     = Inr \<lparr>tok_id = ghost_id, tok_iat = 0, tok_exp = thirty_days\<rparr>
   \<and> list_all (\<lambda>u. user_id u \<noteq> ghost_id) (users db1)
   \<and> protect env1 db1 5000 (bearer_header (jwt_sign ghost_id ''s3cret-key'' 0)) = Next None
   \<and> jwt_verify (header_token (bearer_header (jwt_sign ''abc'' ''s3cret-key'' 0)))
        (JWT_SECRET env1) 5000
     = Inr \<lparr>tok_id = ''abc'', tok_iat = 0, tok_exp = thirty_days\<rparr>
   \<and> protect env1 db1 5000 (bearer_header (jwt_sign ''abc'' ''s3cret-key'' 0))
     = Rejected token_failed"
proof -
  have v: "jwt_verify (Some (jwt_sign i ''s3cret-key'' 0)) (JWT_SECRET env1) 5000
           = Inr \<lparr>tok_id = i, tok_iat = 0, tok_exp = thirty_days\<rparr>" for i
    by (simp add: jwt_verify_def jwt_sign_def secret_env1 supplied_def text_of_def truthy_def
        thirty_days_def)
  have h: "header_token (bearer_header (jwt_sign i k 0)) = Some (jwt_sign i k 0)" for i k
    by (simp add: jwt_sign_def header_token_bearer)
  have "find (\<lambda>u. user_id u = toHexString ghost_id) (users db1) = None"
    by (simp add: toHexString_def lower_def db1_def alice_def bob_def alice_id_def bob_id_def
        ghost_id_def)
  then have g: "User_findById (users db1) (Some ghost_id) = Inr None"
    by (simp add: User_findById_def oid_ghost)
  have a: "User_findById (users db1) (Some ''abc'') = Inl (CastError ''abc'')"
    by (simp add: User_findById_def isObjectIdString_def)
  have l: "list_all (\<lambda>u. user_id u \<noteq> ghost_id) (users db1)"
    by (simp add: db1_def alice_def bob_def alice_id_def bob_id_def ghost_id_def)
  show ?thesis
    by (simp add: h v l protect_def has_bearer_header g a)
qed

theorem protect_outcomes_witness:
  "has_bearer (bearer_header (generateToken env1 1000 alice_id))
   \<and> protect env1 db1 5000 (bearer_header (generateToken env1 1000 alice_id))
       = Next (Some (alice\<lparr>password := None\<rparr>))
   \<and> \<not> has_bearer None \<and> protect env1 db1 5000 None = Rejected no_token
   \<and> has_bearer (Some (map Ch ''Bearer''))
   \<and> protect env1 db1 5000 (Some (map Ch ''Bearer'')) = Rejected token_failed"
proof -
  let ?h = "bearer_header (generateToken env1 1000 alice_id)"
  have t: "generateToken env1 1000 alice_id = jwt_sign alice_id ''s3cret-key'' 1000"
    by (simp add: generateToken_def secret_env1 or_else_def supplied_def text_of_def truthy_def)
  have hb: "has_bearer ?h" by (rule has_bearer_header)
  have v: "jwt_verify (header_token ?h) (JWT_SECRET env1) 5000
           = Inr \<lparr>tok_id = alice_id, tok_iat = 1, tok_exp = 1 + thirty_days\<rparr>"
    by (simp add: t jwt_sign_def header_token_bearer jwt_verify_def secret_env1 supplied_def
        text_of_def truthy_def thirty_days_def)
  have f: "User_findById (users db1) (Some (tok_id \<lparr>tok_id = alice_id, tok_iat = 1,
              tok_exp = 1 + thirty_days\<rparr>)) = Inr (Some alice)"
    using find_alice by (simp add: alice_def)
  note p = protect_outcomes[of env1 db1 5000]
  from p[of ?h, THEN conjunct2, THEN conjunct2, THEN conjunct1, rule_format, OF hb v f]
  have 1: "protect env1 db1 5000 ?h = Next (Some (alice\<lparr>password := None\<rparr>))"
    by (simp add: select_minus_password_def)
  have nb: "\<not> has_bearer None" by (simp add: has_bearer_def)
  from p[of None, THEN conjunct1] nb
  have 2: "protect env1 db1 5000 None = Rejected no_token" by blast
  have b3: "has_bearer (Some (map Ch ''Bearer''))"
    by (simp add: has_bearer_def startsWith_def)
  have v3: "jwt_verify (header_token (Some (map Ch ''Bearer''))) (JWT_SECRET env1) 5000
            = Inl (JsonWebTokenError ''jwt must be provided'')"
    by (simp add: header_token_def index_def jwt_verify_def)
  from p[of "Some (map Ch ''Bearer'')", THEN conjunct2, THEN conjunct1] b3 v3
  have 3: "protect env1 db1 5000 (Some (map Ch ''Bearer'')) = Rejected token_failed" by blast
  from hb 1 nb 2 b3 3 show ?thesis by blast
qed

subsection \<open>Tokens issued at registration\<close>

lemma User_create_fresh:
  assumes "User_create us salt new_id now n e p = Inr (u, us')"
  shows "\<not> list_ex (\<lambda>v. user_id v = new_id) us"
  using assms by (auto simp: User_create_def Let_def split: option.splits if_splits)

lemma find_snoc_fresh:
  assumes "\<not> list_ex P xs" and "P y"
  shows "find P (xs @ [y]) = Some y"
  using assms by (induction xs) auto

lemma generateToken_secret:
  assumes "JWT_SECRET env = Some k" and "k \<noteq> []"
  shows "generateToken env now i = jwt_sign i k now"
  using assms by (simp add: generateToken_def or_else_def supplied_def text_of_def truthy_def)

lemma generateToken_unset:
  assumes "\<not> supplied (JWT_SECRET env)"
  shows "generateToken env now i = jwt_sign i ''default_secret'' now"
  using assms by (simp add: generateToken_def or_else_def)

lemma verify_own_token:
  assumes "JWT_SECRET env = Some k" and "k \<noteq> []"
    and "now' div 1000 < now div 1000 + thirty_days"
  shows "jwt_verify (header_token (bearer_header (jwt_sign i k now))) (JWT_SECRET env) now'
         = Inr \<lparr>tok_id = i, tok_iat = now div 1000, tok_exp = now div 1000 + thirty_days\<rparr>"
  using assms
  by (simp add: jwt_sign_def header_token_bearer jwt_verify_def supplied_def text_of_def
      truthy_def)

text \<open>
  With the secret configured, the token a registration returns is accepted by the
  middleware until it expires, and the user attached is the one registration created.
\<close>

lemma issued_token_accepted:
  assumes sec: "JWT_SECRET env = Some k" "k \<noteq> []"
    and res: "registerUser env d now salt new_id b = (r, d')" and ok: "statusCode r = 201"
    and oid: "isObjectIdString new_id" "toHexString new_id = new_id"
    and live: "now' div 1000 < now div 1000 + thirty_days"
  shows "\<exists>u tok. data r = Some (AuthData new_id (name u) (email u) tok)
           \<and> users d' = users d @ [u] \<and> user_id u = new_id
           \<and> protect env d' now' (bearer_header tok) = Next (Some (select_minus_password u))"
proof -
  from registerUser_201[OF res ok] obtain u where
    u: "User_create (users d) salt new_id now (text_of (body_name b))
                (text_of (body_email b)) (pw_of (body_password b)) = Inr (u, users d @ [u])"
       "r = sendSuccess 201 (authData env now u) ''User registered successfully''"
       "d' = d\<lparr>users := users d @ [u]\<rparr>" by blast
  from User_create_Inr[OF u(1)] have id: "user_id u = new_id" by auto
  let ?tok = "jwt_sign new_id k now"
  have dat: "data r = Some (AuthData new_id (name u) (email u) ?tok)"
    using u(2) id by (simp add: sendSuccess_def authData_def generateToken_secret[OF sec])
  have "find (\<lambda>v. user_id v = new_id) (users d @ [u]) = Some u"
    by (rule find_snoc_fresh[OF User_create_fresh[OF u(1)] id])
  then have f: "User_findById (users d') (Some new_id) = Inr (Some u)"
    using oid u(3) by (simp add: User_findById_def)
  have "protect env d' now' (bearer_header ?tok) = Next (Some (select_minus_password u))"
    by (simp add: protect_def has_bearer_header verify_own_token[OF sec live] f)
  with dat u(3) id show ?thesis by auto
qed

lemma unset_env: "\<not> supplied (JWT_SECRET env_unset)"
  by (simp add: env_unset_def supplied_def)

text \<open>
  Claim C8 at a configuration with no secret. Registration signs the token under the
  issuer's default secret; the middleware verifies with the unset secret, the library
  refuses, and the token registration has just returned is rejected with 401
  "Not authorized, token failed".
\<close>

theorem token_rejected_when_secret_unset:
  "registerUser env_unset db1 40 ''salt9'' jo_id jo_body =
     (sendSuccess 201
        (AuthData jo_id ''Jo'' ''jo@x.com'' (jwt_sign jo_id ''default_secret'' 40))
        ''User registered successfully'',
      db1\<lparr>users := users db1 @ [jo]\<rparr>)
   \<and> protect env_unset (db1\<lparr>users := users db1 @ [jo]\<rparr>) 40
        (bearer_header (jwt_sign jo_id ''default_secret'' 40))
     = Rejected token_failed"
proof -
  have a: "authData env_unset 40 jo
           = AuthData jo_id ''Jo'' ''jo@x.com'' (jwt_sign jo_id ''default_secret'' 40)"
    by (simp add: authData_def generateToken_unset[OF unset_env] jo_def)
  have v: "jwt_verify (header_token (bearer_header (jwt_sign jo_id ''default_secret'' 40)))
             (JWT_SECRET env_unset) 40
           = Inl (JsonWebTokenError ''secret or public key must be provided'')"
    by (simp add: jwt_sign_def header_token_bearer jwt_verify_def unset_env)
  show ?thesis
    by (simp add: register_jo a protect_def has_bearer_header v)
qed

section \<open>Search in the task list\<close>

lemma sorted_newest: "sorted_wrt (\<lambda>a b. createdAt a \<ge> createdAt b) (sort_newest ts)"
proof -
  have "sorted (map createdAt (sort_key createdAt ts))" by (rule sorted_sort_key)
  then have "sorted_wrt (\<lambda>a b. createdAt a \<le> createdAt b) (sort_key createdAt ts)"
    by (simp add: sorted_map)
  then show ?thesis by (simp add: sort_newest_def sorted_wrt_rev)
qed

text \<open>
  Whatever the engine, the search string is handed to it as a pattern: the list is the
  acting user's tasks whose title or description the compiled pattern matches, narrowed
  by the status, newest first.
\<close>

lemma getTasks_by_engine:
  assumes "rx s = Inr m" and "s \<noteq> []"
  shows "getTasks rx d (Some u) \<lparr>query_search = Some s, query_status = st\<rparr> =
     sendSuccess 200
       (TaskList (sort_newest (filter
          (\<lambda>t. user t = user_id u
               \<and> (m (title t) \<or> (case description t of None \<Rightarrow> False | Some x \<Rightarrow> m x))
               \<and> (case present st of None \<Rightarrow> True | Some v \<Rightarrow> status t = v)) (tasks d))))
       ''Tasks retrieved successfully''"
  using assms
  by (simp add: getTasks_def Task_find_def present_def supplied_def truthy_def Let_def)

lemma dot_here_plain: "CHR ''.'' \<notin> set s \<Longrightarrow> dot_here s cs = prefix_i s cs"
  by (induction s cs rule: prefix_i.induct) auto

lemma dot_search_plain: "CHR ''.'' \<notin> set s \<Longrightarrow> dot_search s cs = contains_i s cs"
  by (induction cs) (auto simp: dot_here_plain)

lemma wildcard_engine_plain:
  assumes "list_all (\<lambda>c. c \<notin> set other_operators) s" and "CHR ''.'' \<notin> set s"
  shows "wildcard_engine s = Inr (contains_i s)"
  using assms by (auto simp: wildcard_engine_def dot_search_plain)

text \<open>
  Claim C4 at the search string \<open>a.c\<close>. The handler passes the string unescaped as a
  regular expression, so the dot matches any character: Alice's task titled "abc", with
  no description, is returned although neither field contains \<open>a.c\<close>.
\<close>

theorem search_pattern_not_substring:
  "getTasks wildcard_engine db1 (Some alice) search_a_dot_c =
     sendSuccess 200 (TaskList [task1]) ''Tasks retrieved successfully''
   \<and> title task1 = ''abc'' \<and> description task1 = None \<and> user task1 = user_id alice
   \<and> \<not> contains_i ''a.c'' (title task1)"
proof -
  have e: "wildcard_engine ''a.c'' = Inr (dot_search ''a.c'')"
    by (simp add: wildcard_engine_def other_operators_def)
  have m: "dot_search ''a.c'' ''abc''" by (simp add: lower_def)
  have n: "\<not> contains_i ''a.c'' ''abc''" by (simp add: lower_def)
  have t: "title task1 = ''abc''" "description task1 = None" "user task1 = user_id alice"
    by (simp_all add: task1_def alice_def)
  have "getTasks wildcard_engine db1 (Some alice)
          \<lparr>query_search = Some ''a.c'', query_status = None\<rparr> =
        sendSuccess 200 (TaskList (sort_newest [task1])) ''Tasks retrieved successfully''"
    by (simp add: getTasks_by_engine[where rx = wildcard_engine and s = "''a.c''", OF e] present_def supplied_def db1_def t m)
  then show ?thesis using t n by (simp add: search_a_dot_c_def sort_newest_def)
qed

end
